theory Spec2Isabelle
  imports Main "HOL-Library.Word" "HOL-Library.Code_Target_Nat"
begin

section \<open>Machine types, platform and process state\<close>

text \<open>
  The repository holds two independent C programs, \<^verbatim>\<open>misc/loop.c\<close> (BufferFill) and
  \<^verbatim>\<open>misc/mach_absolute_time.c\<close> (TimeReader). Both consist of a single \<^verbatim>\<open>main\<close>.
  The C types are words of their width: \<^verbatim>\<open>uint8_t\<close>, \<^verbatim>\<open>uint64_t\<close> and the
  32-bit \<^verbatim>\<open>int\<close> of the integer constants, which is read in two's complement
  (\<open>sint\<close>, and \<open>scast\<close> to convert it to a wider type).
\<close>

type_synonym u8 = "8 word"
type_synonym u64 = "64 word"
type_synonym c_int = "32 word"

text \<open>
  A pointer is null or the base of a heap block; a block is its length and the byte at
  each offset; the heap is the list of the blocks handed out so far, and the number of a
  block is its position there. The trace holds the allocation requests and the (volatile)
  stores, newest first. Everything the programs do that the environment can see is kept in the process state:
  the heap, the trace, the text written to standard output, the number of timer reads, and the parts of the surroundings that
  a process could consume or change (arguments, environment variables, files).
\<close>

datatype ptr = NULL | Ptr nat

datatype event = Malloc nat | Store nat nat u8

datatype fault = NullDeref | OutOfBounds | BadFormat

record block =
  len :: nat
  bytes :: "nat \<Rightarrow> u8"

record world =
  heap :: "block list"
  trace :: "event list"
  stdout :: string
  clock_reads :: nat
  argv :: "string list"
  environ :: "(string \<times> string) list"
  files :: "(string \<times> string) list"

text \<open>
  What the platform decides and the program cannot: whether the allocator finds memory,
  the indeterminate contents of fresh memory, and the value of the tick counter at each
  read. No assumption is made about any of them.
\<close>

record platform =
  malloc_ok :: bool
  junk :: "nat \<Rightarrow> u8"
  clock :: "nat \<Rightarrow> u64"

text \<open>
  A run ends by returning from \<^verbatim>\<open>main\<close> with an exit status, or it reaches an operation
  whose behaviour C leaves undefined; the state at that moment is kept.
\<close>

datatype outcome = Exit int world | Crash fault world

fun world_of :: "outcome \<Rightarrow> world" where
  "world_of (Exit c w) = w"
| "world_of (Crash f w) = w"

fun is_Malloc :: "event \<Rightarrow> bool" where
  "is_Malloc (Malloc n) = True"
| "is_Malloc (Store b k v) = False"

fun is_Store :: "event \<Rightarrow> bool" where
  "is_Store (Malloc n) = False"
| "is_Store (Store b k v) = True"

fun store_offset :: "event \<Rightarrow> nat" where
  "store_offset (Store b k v) = k"
| "store_offset (Malloc n) = 0"

fun store_value :: "event \<Rightarrow> nat" where
  "store_value (Store b k v) = unat v"
| "store_value (Malloc n) = 0"


section \<open>BufferFill: \<^verbatim>\<open>misc/loop.c\<close>\<close>

text \<open>
  \<^verbatim>\<open>#define BUFSIZE 1024 * 1024\<close>: the macro expands to a product of two \<^verbatim>\<open>int\<close>
  constants. In both places where it is used (\<^verbatim>\<open>malloc(BUFSIZE)\<close> and
  \<^verbatim>\<open>i < BUFSIZE\<close>) the product binds tighter than its context, and its value is
  converted to the unsigned 64-bit type of the other side (\<^verbatim>\<open>size_t\<close>, \<^verbatim>\<open>uint64_t\<close>).
\<close>

definition BUFSIZE :: c_int where
  "BUFSIZE = 1024 * 1024"

text \<open>
  \<^verbatim>\<open>malloc(n)\<close> of the C library: the request is recorded; on success a fresh block of
  \<open>n\<close> bytes with indeterminate contents is added to the heap and its base returned, on
  failure the null pointer is returned.
\<close>

definition malloc :: "platform \<Rightarrow> u64 \<Rightarrow> world \<Rightarrow> ptr \<times> world" where
  "malloc p n w =
     (let w1 = w\<lparr>trace := Malloc (unat n) # trace w\<rparr>
      in if malloc_ok p
         then (Ptr (length (heap w)), w1\<lparr>heap := heap w @ [\<lparr>len = unat n, bytes = junk p\<rparr>]\<rparr>)
         else (NULL, w1))"

text \<open>
  \<^verbatim>\<open>dest[i] = v\<close> through a \<^verbatim>\<open>volatile uint8_t *\<close>: the store happens and is observable.
  Through the null pointer, or outside the block, the behaviour is undefined.
\<close>

definition store_u8 :: "ptr \<Rightarrow> u64 \<Rightarrow> u8 \<Rightarrow> world \<Rightarrow> fault + world" where
  "store_u8 d i v w =
     (case d of
        NULL \<Rightarrow> Inl NullDeref
      | Ptr b \<Rightarrow>
          if b < length (heap w) \<and> unat i < len (heap w ! b)
          then Inr (w\<lparr>heap := (heap w)[b := (heap w ! b)\<lparr>bytes := (bytes (heap w ! b))(unat i := v)\<rparr>],
                      trace := Store b (unat i) v # trace w\<rparr>)
          else Inl OutOfBounds)"

text \<open>
  \<^verbatim>\<open>for (uint64_t i = 0; i < BUFSIZE; i++) { dest[i] = (uint8_t) i; }\<close>, from the
  current value of \<open>i\<close>. The cast keeps the low 8 bits; \<open>i + 1\<close> is 64-bit addition.
\<close>

function fill :: "ptr \<Rightarrow> u64 \<Rightarrow> world \<Rightarrow> fault \<times> world + world" where
  "fill dest i w =
     (if i < scast BUFSIZE
      then (case store_u8 dest i (ucast i) w of
              Inl f \<Rightarrow> Inl (f, w)
            | Inr w' \<Rightarrow> fill dest (i + 1) w')
      else Inr w)"
  by pat_completeness auto

termination fill
proof (relation "measure (\<lambda>(dest, i, w). 1048576 - unat i)")
  show "wf (measure (\<lambda>(dest :: ptr, i :: u64, w :: world). 1048576 - unat i))"
    by simp
next
  fix dest :: ptr and i :: u64 and w w' :: world
  assume "i < scast BUFSIZE"
  then have "unat i < unat (1048576 :: u64)"
    by (simp add: BUFSIZE_def word_less_nat_alt)
  then have lt: "unat i < 1048576"
    by simp
  have "unat (i + 1) = (unat i + 1) mod 2 ^ 64"
    by (simp add: unat_word_ariths)
  also from lt have "\<dots> = unat i + 1"
    by simp
  finally have "unat (i + 1) = Suc (unat i)"
    by simp
  with lt show "((dest, i + 1, w'), (dest, i, w)) \<in> measure (\<lambda>(dest, i, w). 1048576 - unat i)"
    by simp
qed

declare fill.simps [simp del]

text \<open>
  \<^verbatim>\<open>int main()\<close> of \<^verbatim>\<open>loop.c\<close>: the allocation, with no test of its result, then the
  loop. Control reaches the closing brace of \<^verbatim>\<open>main\<close>, which returns 0.
\<close>

definition loop_main :: "platform \<Rightarrow> world \<Rightarrow> outcome" where
  "loop_main p w =
     (case malloc p (scast BUFSIZE) w of
        (dest, w1) \<Rightarrow>
          (case fill dest 0 w1 of
             Inl (f, w2) \<Rightarrow> Crash f w2
           | Inr w2 \<Rightarrow> Exit 0 w2))"


section \<open>TimeReader: \<^verbatim>\<open>misc/mach_absolute_time.c\<close>\<close>

text \<open>
  \<^verbatim>\<open>mach_absolute_time()\<close> is a call into the platform: it returns the counter's value
  at this read.
\<close>

definition mach_absolute_time :: "platform \<Rightarrow> world \<Rightarrow> u64 \<times> world" where
  "mach_absolute_time p w = (clock p (clock_reads w), w\<lparr>clock_reads := Suc (clock_reads w)\<rparr>)"

text \<open>
  \<^verbatim>\<open>printf\<close> belongs to the C library, not to the repository; it is modelled after the
  C standard. Its \<^verbatim>\<open>%llu\<close> conversion writes the unsigned value in base 10: the digits,
  most significant first, with no leading zero, and \<^verbatim>\<open>0\<close> for zero. Every other character
  of the format is copied. A conversion without an argument, and any other conversion,
  is outside what is modelled.
\<close>

definition digit_char :: "nat \<Rightarrow> char" where
  "digit_char d = char_of (48 + d)"

fun decimal :: "nat \<Rightarrow> string" where
  "decimal n = (if n < 10 then [digit_char n] else decimal (n div 10) @ [digit_char (n mod 10)])"

declare decimal.simps [simp del]

fun format :: "string \<Rightarrow> u64 list \<Rightarrow> string option" where
  "format [] as = Some []"
| "format (c # fs) as =
     (if c = CHR ''%''
      then (if take 3 fs = ''llu''
            then (case as of
                    [] \<Rightarrow> None
                  | a # as' \<Rightarrow> map_option (\<lambda>r. decimal (unat a) @ r) (format (drop 3 fs) as'))
            else None)
      else map_option (\<lambda>r. c # r) (format fs as))"

definition printf :: "string \<Rightarrow> u64 list \<Rightarrow> world \<Rightarrow> fault + world" where
  "printf fmt as w =
     (case format fmt as of
        None \<Rightarrow> Inl BadFormat
      | Some s \<Rightarrow> Inr (w\<lparr>stdout := stdout w @ s\<rparr>))"

text \<open>
  \<^verbatim>\<open>int main()\<close> of \<^verbatim>\<open>mach_absolute_time.c\<close>: one read, one \<^verbatim>\<open>printf\<close>,
  \<^verbatim>\<open>return 0\<close>.
\<close>

definition time_main :: "platform \<Rightarrow> world \<Rightarrow> outcome" where
  "time_main p w =
     (case mach_absolute_time p w of
        (time, w1) \<Rightarrow>
          (case printf ''Time is %llu\<newline>'' [time] w1 of
             Inl f \<Rightarrow> Crash f w1
           | Inr w2 \<Rightarrow> Exit 0 w2))"


section \<open>Observations on runs\<close>

text \<open>
  The events a run added to the trace, oldest first, and the test that an event, if it is
  a store, goes to block \<open>b\<close> at an offset below \<open>n\<close>.
\<close>

definition new_events :: "world \<Rightarrow> world \<Rightarrow> event list" where
  "new_events w w' = rev (take (length (trace w') - length (trace w)) (trace w'))"

fun stored_within :: "nat \<Rightarrow> nat \<Rightarrow> event \<Rightarrow> bool" where
  "stored_within b n (Store b' k v) = (b' = b \<and> k < n)"
| "stored_within b n (Malloc m) = True"

text \<open>
  The test that an event, if it is a store, is in the memory of state \<open>w\<close>: its block
  exists, its offset is inside the block, and the byte there is the value stored.
\<close>

fun store_landed :: "world \<Rightarrow> event \<Rightarrow> bool" where
  "store_landed w (Store b k v) = (b < length (heap w) \<and> k < len (heap w ! b) \<and> bytes (heap w ! b) k = v)"
| "store_landed w (Malloc m) = True"

text \<open>
  Modelled from the spec: the counter behind \<^verbatim>\<open>mach_absolute_time()\<close> belongs to the
  platform and is absent from the sources. The spec's contract for it is that of a
  monotonic counter, "guaranteed to never decrease during uninterrupted system
  operation": no read returns less than the read before it.
\<close>

definition monotonic_counter :: "platform \<Rightarrow> bool" where
  "monotonic_counter p = (\<forall>k. clock p k \<le> clock p (Suc k))"

text \<open>Reading a decimal numeral back, to say what "the base-10 rendering" means.\<close>

definition digit_value :: "char \<Rightarrow> nat" where
  "digit_value c = of_char c - 48"

definition decimal_value :: "string \<Rightarrow> nat" where
  "decimal_value ds = foldl (\<lambda>a c. 10 * a + digit_value c) 0 ds"

definition is_digit :: "char \<Rightarrow> bool" where
  "is_digit c = (48 \<le> (of_char c :: nat) \<and> (of_char c :: nat) \<le> 57)"

text \<open>
  The closed form of what the loop does, used to state its invariant: the byte pattern,
  a block whose offsets from \<open>k\<close> up to the end hold the pattern, the stores that put it
  there (newest first, as in the trace), and the state after them.
\<close>

definition pattern :: "nat \<Rightarrow> u8" where
  "pattern k = of_nat k"

definition fill_block :: "nat \<Rightarrow> block \<Rightarrow> block" where
  "fill_block k blk =
     blk\<lparr>bytes := (\<lambda>j. if k \<le> j \<and> j < 1048576 then pattern j else bytes blk j)\<rparr>"

definition stores :: "nat \<Rightarrow> nat \<Rightarrow> event list" where
  "stores b k = map (\<lambda>j. Store b j (pattern j)) (rev [k..<1048576])"

definition filled :: "nat \<Rightarrow> nat \<Rightarrow> world \<Rightarrow> world" where
  "filled b k w =
     w\<lparr>heap := (heap w)[b := fill_block k (heap w ! b)], trace := stores b k @ trace w\<rparr>"

definition fresh :: "platform \<Rightarrow> block" where
  "fresh p = \<lparr>len = 1048576, bytes = junk p\<rparr>"

definition after_fill :: "platform \<Rightarrow> world \<Rightarrow> world" where
  "after_fill p w =
     w\<lparr>heap := heap w @ [fill_block 0 (fresh p)],
       trace := stores (length (heap w)) 0 @ Malloc 1048576 # trace w\<rparr>"

text \<open>Concrete surroundings on which the statements below are exercised.\<close>

definition empty_world :: world where
  "empty_world = \<lparr>heap = [], trace = [], stdout = [], clock_reads = 0,
                    argv = [], environ = [], files = []\<rparr>"

definition good_platform :: platform where
  "good_platform = \<lparr>malloc_ok = True, junk = (\<lambda>k. 0), clock = (\<lambda>k. 123456789)\<rparr>"

definition starved_platform :: platform where
  "starved_platform = \<lparr>malloc_ok = False, junk = (\<lambda>k. 0), clock = (\<lambda>k. 0)\<rparr>"

definition other_platform :: platform where
  "other_platform = \<lparr>malloc_ok = True, junk = (\<lambda>k. 255), clock = (\<lambda>k. if k = 0 then 123456789 else 7)\<rparr>"

definition ticking_platform :: platform where
  "ticking_platform = \<lparr>malloc_ok = True, junk = (\<lambda>k. 0), clock = (\<lambda>k. if k = 0 then 100 else 250)\<rparr>"

definition busy_world :: world where
  "busy_world = \<lparr>heap = [], trace = [], stdout = ''x'', clock_reads = 0,
                   argv = [''prog'', ''arg''], environ = [(''HOME'', ''/root'')],
                   files = [(''notes'', ''kept'')]\<rparr>"


section \<open>The fill loop\<close>

subsection \<open>The constant and the index arithmetic\<close>

lemma BUFSIZE_u64: "(scast BUFSIZE :: u64) = 1048576"
  by (simp add: BUFSIZE_def)

lemma unat_BUFSIZE: "unat (scast BUFSIZE :: u64) = 1048576"
  by (simp add: BUFSIZE_u64)

lemma below_BUFSIZE: "(i < (scast BUFSIZE :: u64)) = (unat i < 1048576)"
  by (simp add: word_less_nat_alt unat_BUFSIZE)

lemma unat_succ_below:
  fixes i :: u64
  assumes "unat i < 1048576"
  shows "unat (i + 1) = Suc (unat i)"
proof -
  have "unat (i + 1) = (unat i + 1) mod 2 ^ 64"
    by (simp add: unat_word_ariths)
  also from assms have "\<dots> = unat i + 1"
    by simp
  finally show ?thesis
    by simp
qed

lemma ucast_pattern: "(ucast (i :: u64) :: u8) = pattern (unat i)"
  by (simp add: pattern_def)

lemma unat_pattern: "unat (pattern k) = k mod 256"
  by (simp add: pattern_def unat_of_nat)

subsection \<open>Blocks and stores in closed form\<close>

lemma fill_block_done: "fill_block 1048576 blk = blk"
proof -
  have "(\<lambda>j. if 1048576 \<le> j \<and> j < 1048576 then pattern j else bytes blk j) = bytes blk"
    by (rule ext) auto
  then show ?thesis
    by (simp add: fill_block_def)
qed

lemma fill_block_step:
  assumes "k < 1048576"
  shows "fill_block (Suc k) (blk\<lparr>bytes := (bytes blk)(k := pattern k)\<rparr>) = fill_block k blk"
  using assms by (auto simp: fill_block_def fun_eq_iff)

lemma len_fill_block: "len (fill_block k blk) = len blk"
  by (simp add: fill_block_def)

lemma bytes_fill_block:
  "bytes (fill_block k blk) j = (if k \<le> j \<and> j < 1048576 then pattern j else bytes blk j)"
  by (simp add: fill_block_def)

lemma stores_done: "stores b 1048576 = []"
  by (simp add: stores_def)

lemma stores_step:
  "k < 1048576 \<Longrightarrow> stores b k = stores b (Suc k) @ [Store b k (pattern k)]"
  by (simp add: stores_def upt_conv_Cons)

lemma length_stores: "length (stores b k) = 1048576 - k"
  by (simp add: stores_def)

lemma rev_stores: "rev (stores b 0) = map (\<lambda>j. Store b j (pattern j)) [0..<1048576]"
  by (simp add: stores_def rev_map)

lemma filter_Malloc_stores: "filter is_Malloc (stores b k) = []"
  by (simp add: stores_def filter_empty_conv)

lemma filter_Store_stores: "filter is_Store (stores b k) = stores b k"
  by (simp add: stores_def filter_id_conv)

lemma stored_within_stores: "list_all (stored_within b 1048576) (stores b k)"
  by (simp add: stores_def list_all_iff)

subsection \<open>One iteration, and the loop from any index\<close>

lemma fill_step:
  assumes "unat i < 1048576" "b < length (heap w)" "len (heap w ! b) = 1048576"
  shows "fill (Ptr b) i w =
         fill (Ptr b) (i + 1)
           (w\<lparr>heap := (heap w)[b := (heap w ! b)\<lparr>bytes := (bytes (heap w ! b))(unat i := pattern (unat i))\<rparr>],
              trace := Store b (unat i) (pattern (unat i)) # trace w\<rparr>)"
  using assms
  by (subst fill.simps) (simp add: below_BUFSIZE store_u8_def ucast_pattern)

lemma fill_stop:
  assumes "\<not> unat i < 1048576"
  shows "fill d i w = Inr w"
  using assms by (subst fill.simps) (simp add: below_BUFSIZE)

lemma fill_null: "fill NULL 0 w = Inl (NullDeref, w)"
  by (subst fill.simps) (simp add: BUFSIZE_u64 store_u8_def)

lemma filled_done: "b < length (heap w) \<Longrightarrow> filled b 1048576 w = w"
  by (simp add: filled_def fill_block_done stores_done)

lemma filled_step:
  assumes "k < 1048576" "b < length (heap w)"
  shows "filled b (Suc k)
           (w\<lparr>heap := (heap w)[b := (heap w ! b)\<lparr>bytes := (bytes (heap w ! b))(k := pattern k)\<rparr>],
              trace := Store b k (pattern k) # trace w\<rparr>)
         = filled b k w"
  using assms by (simp add: filled_def fill_block_step stores_step)

text \<open>
  The invariant of the loop, by induction on the number of iterations that remain: from
  index \<open>i\<close>, on a block of 1048576 bytes, the loop returns and has written the pattern
  to the offsets from \<open>i\<close> on, in increasing order.
\<close>

lemma fill_run:
  assumes "b < length (heap w)" "len (heap w ! b) = 1048576" "unat i \<le> 1048576"
  shows "fill (Ptr b) i w = Inr (filled b (unat i) w)"
  using assms
proof (induction "1048576 - unat i" arbitrary: i w)
  case 0
  then have "unat i = 1048576"
    by simp
  with 0 show ?case
    by (simp add: fill_stop filled_done)
next
  case (Suc n)
  then have lt: "unat i < 1048576"
    by simp
  let ?w = "w\<lparr>heap := (heap w)[b := (heap w ! b)\<lparr>bytes := (bytes (heap w ! b))(unat i := pattern (unat i))\<rparr>],
              trace := Store b (unat i) (pattern (unat i)) # trace w\<rparr>"
  have nxt: "unat (i + 1) = Suc (unat i)"
    using lt by (rule unat_succ_below)
  have "fill (Ptr b) i w = fill (Ptr b) (i + 1) ?w"
    using lt Suc.prems by (simp add: fill_step)
  also have "\<dots> = Inr (filled b (unat (i + 1)) ?w)"
  proof (rule Suc.hyps(1))
    show "n = 1048576 - unat (i + 1)"
      using Suc.hyps(2) nxt by simp
    show "b < length (heap ?w)"
      using Suc.prems by simp
    show "len (heap ?w ! b) = 1048576"
      using Suc.prems by simp
    show "unat (i + 1) \<le> 1048576"
      using lt nxt by simp
  qed
  also have "filled b (unat (i + 1)) ?w = filled b (unat i) w"
    unfolding nxt using lt Suc.prems(1) by (rule filled_step)
  finally show ?case .
qed

subsection \<open>The whole of \<^verbatim>\<open>main\<close>\<close>

lemma malloc_good:
  assumes "malloc_ok p"
  shows "malloc p n w =
           (Ptr (length (heap w)),
            w\<lparr>trace := Malloc (unat n) # trace w,
              heap := heap w @ [\<lparr>len = unat n, bytes = junk p\<rparr>]\<rparr>)"
  using assms by (simp add: malloc_def)

lemma malloc_starved:
  assumes "\<not> malloc_ok p"
  shows "malloc p n w = (NULL, w\<lparr>trace := Malloc (unat n) # trace w\<rparr>)"
  using assms by (simp add: malloc_def)

lemma loop_main_good:
  assumes "malloc_ok p"
  shows "loop_main p w = Exit 0 (after_fill p w)"
proof -
  let ?w1 = "w\<lparr>trace := Malloc 1048576 # trace w, heap := heap w @ [fresh p]\<rparr>"
  have m: "malloc p (scast BUFSIZE) w = (Ptr (length (heap w)), ?w1)"
    using assms by (simp add: malloc_good unat_BUFSIZE fresh_def)
  have "fill (Ptr (length (heap w))) 0 ?w1 = Inr (filled (length (heap w)) (unat (0 :: u64)) ?w1)"
    by (rule fill_run) (simp_all add: fresh_def)
  also have "filled (length (heap w)) (unat (0 :: u64)) ?w1 = after_fill p w"
    by (simp add: filled_def after_fill_def)
  finally show ?thesis
    by (simp add: loop_main_def m)
qed

lemma loop_main_starved:
  assumes "\<not> malloc_ok p"
  shows "loop_main p w = Crash NullDeref (w\<lparr>trace := Malloc 1048576 # trace w\<rparr>)"
  using assms by (simp add: loop_main_def malloc_starved fill_null unat_BUFSIZE)

lemma heap_after_fill: "heap (after_fill p w) = heap w @ [fill_block 0 (fresh p)]"
  by (simp add: after_fill_def)

lemma buffer_after_fill: "heap (after_fill p w) ! length (heap w) = fill_block 0 (fresh p)"
  by (simp add: heap_after_fill)

lemma trace_after_fill:
  "trace (after_fill p w) = stores (length (heap w)) 0 @ Malloc 1048576 # trace w"
  by (simp add: after_fill_def)

lemma new_events_after_fill:
  "new_events w (after_fill p w) = Malloc 1048576 # rev (stores (length (heap w)) 0)"
  by (simp add: new_events_def trace_after_fill length_stores)

lemma store_landed_stores:
  "list_all (store_landed (after_fill p w)) (stores (length (heap w)) k)"
  by (simp add: stores_def list_all_iff heap_after_fill len_fill_block bytes_fill_block fresh_def)

lemma store_u8_writes:
  assumes "store_u8 (Ptr b) i v w = Inr w'"
  shows "bytes (heap w' ! b) (unat i) = v \<and> trace w' = Store b (unat i) v # trace w"
  using assms by (auto simp add: store_u8_def split: if_splits)

lemma after_fill_frame:
  "after_fill p (w\<lparr>argv := a, environ := e, files := f\<rparr>)
     = (after_fill p w)\<lparr>argv := a, environ := e, files := f\<rparr>"
  by (simp add: after_fill_def)

lemma good_platform_ok: "malloc_ok good_platform"
  by (simp add: good_platform_def)

lemma other_platform_ok: "malloc_ok other_platform"
  by (simp add: other_platform_def)

lemma starved_platform_fails: "\<not> malloc_ok starved_platform"
  by (simp add: starved_platform_def)


section \<open>The decimal rendering and the output line\<close>

lemma of_char_digit: "d < 10 \<Longrightarrow> of_char (digit_char d) = 48 + d"
  by (simp add: digit_char_def)

lemma digit_value_digit_char: "d < 10 \<Longrightarrow> digit_value (digit_char d) = d"
  by (simp add: digit_value_def of_char_digit)

lemma is_digit_digit_char: "d < 10 \<Longrightarrow> is_digit (digit_char d)"
  by (simp add: is_digit_def of_char_digit)

lemma digit_char_zero_iff: "d < 10 \<Longrightarrow> (digit_char d = CHR ''0'') = (d = 0)"
proof
  assume "d < 10" and "digit_char d = CHR ''0''"
  then have "(of_char (digit_char d) :: nat) = of_char (CHR ''0'')"
    by simp
  with \<open>d < 10\<close> show "d = 0"
    by (simp add: of_char_digit)
next
  assume "d = 0"
  then show "digit_char d = CHR ''0''"
    by (simp add: digit_char_def) code_simp
qed

lemma decimal_small: "n < 10 \<Longrightarrow> decimal n = [digit_char n]"
  by (subst decimal.simps) simp

lemma decimal_large:
  "\<not> n < 10 \<Longrightarrow> decimal n = decimal (n div 10) @ [digit_char (n mod 10)]"
  by (subst decimal.simps) simp

lemma decimal_nonempty: "decimal n \<noteq> []"
  by (cases "n < 10") (simp_all add: decimal_small decimal_large)

lemma decimal_digits: "list_all is_digit (decimal n)"
proof (induction n rule: decimal.induct)
  case (1 n)
  show ?case
  proof (cases "n < 10")
    case True
    then show ?thesis
      by (simp add: decimal_small is_digit_digit_char)
  next
    case False
    with 1 show ?thesis
      by (simp add: decimal_large is_digit_digit_char)
  qed
qed

lemma decimal_value_snoc:
  "decimal_value (ds @ [c]) = 10 * decimal_value ds + digit_value c"
  by (simp add: decimal_value_def)

lemma decimal_value_decimal: "decimal_value (decimal n) = n"
proof (induction n rule: decimal.induct)
  case (1 n)
  show ?case
  proof (cases "n < 10")
    case True
    then show ?thesis
      by (simp add: decimal_small decimal_value_def digit_value_digit_char)
  next
    case False
    with 1 show ?thesis
      by (simp add: decimal_large decimal_value_snoc digit_value_digit_char)
  qed
qed

lemma decimal_leading_zero: "(hd (decimal n) = CHR ''0'') = (n = 0)"
proof (induction n rule: decimal.induct)
  case (1 n)
  show ?case
  proof (cases "n < 10")
    case True
    then show ?thesis
      by (simp add: decimal_small digit_char_zero_iff)
  next
    case False
    then have "hd (decimal n) = hd (decimal (n div 10))"
      by (simp add: decimal_large decimal_nonempty)
    moreover from False have "n div 10 \<noteq> 0"
      by simp
    ultimately show ?thesis
      using 1 False by simp
  qed
qed

lemma newline_not_digit: "\<not> is_digit (CHR ''\<newline>'')"
  by (simp add: is_digit_def)

lemma decimal_no_newline: "filter (\<lambda>c. c = CHR ''\<newline>'') (decimal n) = []"
  using decimal_digits [of n] newline_not_digit
  by (auto simp add: filter_empty_conv list_all_iff)

lemma format_time:
  "format ''Time is %llu\<newline>'' [v] = Some (''Time is '' @ decimal (unat v) @ ''\<newline>'')"
  by simp

lemma time_main_run:
  "time_main p w = Exit 0 (w\<lparr>clock_reads := Suc (clock_reads w),
       stdout := stdout w @ ''Time is '' @ decimal (unat (clock p (clock_reads w))) @ ''\<newline>''\<rparr>)"
  using format_time [of "clock p (clock_reads w)"]
  by (simp add: time_main_def mach_absolute_time_def printf_def)

lemma decimal_mock: "decimal 123456789 = ''123456789''"
  by code_simp

lemma decimal_zero: "decimal 0 = ''0''"
  by code_simp


section \<open>The claims\<close>

text \<open>
  C1 (BufferFill completeness). When the allocation succeeds, \<^verbatim>\<open>main\<close> of \<^verbatim>\<open>loop.c\<close>
  returns, and then, for every index \<open>i\<close> below 1048576, the byte at offset \<open>i\<close> of the
  block that \<^verbatim>\<open>malloc\<close> handed out (a block of 1048576 bytes) is \<open>i mod 256\<close>.
\<close>

theorem fill_completeness:
  assumes "malloc_ok p" and "i < 1048576"
  shows "\<exists>w'. loop_main p w = Exit 0 w'
           \<and> fst (malloc p (scast BUFSIZE) w) = Ptr (length (heap w))
           \<and> len (heap w' ! length (heap w)) = 1048576
           \<and> unat (bytes (heap w' ! length (heap w)) i) = i mod 256"
  using assms
  by (simp add: loop_main_good malloc_good buffer_after_fill len_fill_block bytes_fill_block
      unat_pattern fresh_def)

theorem fill_completeness_witness:
  "malloc_ok good_platform \<and> (300 :: nat) < 1048576
   \<and> (\<exists>w'. loop_main good_platform empty_world = Exit 0 w'
          \<and> len (heap w' ! 0) = 1048576
          \<and> unat (bytes (heap w' ! 0) 300) = 44)"
proof -
  have "length (heap empty_world) = 0"
    by (simp add: empty_world_def)
  with fill_completeness [OF good_platform_ok, of 300 empty_world] good_platform_ok
  show ?thesis
    by auto
qed

text \<open>
  C2 (TimeReader output format). Whatever 64-bit value \<open>v\<close> the single timer read
  returns, \<^verbatim>\<open>main\<close> of \<^verbatim>\<open>mach_absolute_time.c\<close> returns 0 after one read and after
  appending to standard output exactly the text \<^verbatim>\<open>Time is \<close>, the rendering of \<open>v\<close> and a
  newline. The rendering is the base-10 numeral of \<open>v\<close>: it is not empty, consists of
  digits, reads back as \<open>v\<close>, and starts with \<^verbatim>\<open>0\<close> only for \<open>v = 0\<close>. The text holds one
  newline, so it is one line.
\<close>

theorem time_reader_output:
  assumes "fst (mach_absolute_time p w) = v"
  shows "time_main p w = Exit 0 (w\<lparr>clock_reads := Suc (clock_reads w),
            stdout := stdout w @ ''Time is '' @ decimal (unat v) @ ''\<newline>''\<rparr>)
         \<and> decimal (unat v) \<noteq> []
         \<and> list_all is_digit (decimal (unat v))
         \<and> decimal_value (decimal (unat v)) = unat v
         \<and> (hd (decimal (unat v)) = CHR ''0'') = (v = 0)
         \<and> length (filter (\<lambda>c. c = CHR ''\<newline>'')
                     (''Time is '' @ decimal (unat v) @ ''\<newline>'')) = 1"
proof -
  from assms have v: "clock p (clock_reads w) = v"
    by (simp add: mach_absolute_time_def)
  have "(unat v = 0) = (v = 0)"
    by (simp add: unat_eq_0)
  then show ?thesis
    by (simp add: time_main_run v decimal_nonempty decimal_digits decimal_value_decimal
        decimal_leading_zero decimal_no_newline)
qed

theorem time_reader_output_witness:
  "fst (mach_absolute_time good_platform empty_world) = 123456789
   \<and> time_main good_platform empty_world
       = Exit 0 (empty_world\<lparr>clock_reads := 1, stdout := ''Time is 123456789\<newline>''\<rparr>)
   \<and> fst (mach_absolute_time starved_platform empty_world) = 0
   \<and> time_main starved_platform empty_world
       = Exit 0 (empty_world\<lparr>clock_reads := 1, stdout := ''Time is 0\<newline>''\<rparr>)"
proof -
  have a: "fst (mach_absolute_time good_platform empty_world) = 123456789"
    by (simp add: mach_absolute_time_def good_platform_def)
  have b: "fst (mach_absolute_time starved_platform empty_world) = 0"
    by (simp add: mach_absolute_time_def starved_platform_def)
  have c: "clock_reads empty_world = 0" "stdout empty_world = []"
    by (simp_all add: empty_world_def)
  from time_reader_output [OF a] time_reader_output [OF b] a b c show ?thesis
    by (simp add: decimal_mock decimal_zero)
qed

text \<open>
  C3 (BufferFill size invariant). On every run, whatever the platform does and whatever
  the arguments, environment and files are, the run makes exactly one allocation request,
  and it is for 1048576 bytes. This holds also when the allocation fails.
\<close>

theorem allocation_request_size:
  "filter is_Malloc (new_events w (world_of (loop_main p w))) = [Malloc 1048576]"
proof (cases "malloc_ok p")
  case True
  then show ?thesis
    by (simp add: loop_main_good new_events_after_fill filter_Malloc_stores
        flip: rev_filter)
next
  case False
  then show ?thesis
    by (simp add: loop_main_starved new_events_def)
qed

theorem allocation_request_size_witness:
  "filter is_Malloc (new_events busy_world (world_of (loop_main starved_platform busy_world)))
     = [Malloc 1048576]
   \<and> filter is_Malloc (new_events empty_world (world_of (loop_main good_platform empty_world)))
     = [Malloc 1048576]"
  using allocation_request_size [of busy_world starved_platform]
    allocation_request_size [of empty_world good_platform]
  by simp

text \<open>
  C4 (BufferFill algorithm order). When the allocation succeeds, the stores of the run,
  in the order in which they happen, are at the offsets 0, 1, ..., 1048575, each of the
  value "offset mod 256" (the index cut to 8 bits), and all of them go to the allocated
  block. Each store is in the buffer: when the run ends, the byte at the offset of every
  store is the value that was stored, so the buffer reads 0 mod 256, 1 mod 256, ...,
  1048575 mod 256 from its first offset to its last.
\<close>

theorem fill_write_order:
  assumes "malloc_ok p"
  shows "\<exists>w'. loop_main p w = Exit 0 w'
           \<and> map (\<lambda>e. (store_offset e, store_value e)) (filter is_Store (new_events w w'))
               = map (\<lambda>k. (k, k mod 256)) [0..<1048576]
           \<and> list_all (stored_within (length (heap w)) 1048576) (new_events w w')
           \<and> list_all (store_landed w') (new_events w w')
           \<and> map (\<lambda>k. unat (bytes (heap w' ! length (heap w)) k)) [0..<1048576]
               = map (\<lambda>k. k mod 256) [0..<1048576]"
proof -
  have "filter is_Store (rev (stores (length (heap w)) 0)) = rev (stores (length (heap w)) 0)"
    by (simp add: filter_Store_stores flip: rev_filter)
  moreover have "map (\<lambda>e. (store_offset e, store_value e)) (rev (stores (length (heap w)) 0))
      = map (\<lambda>k. (k, k mod 256)) [0..<1048576]"
    by (simp add: rev_stores unat_pattern)
  moreover have "list_all (stored_within (length (heap w)) 1048576) (rev (stores (length (heap w)) 0))"
    using stored_within_stores [of "length (heap w)" 0] by (simp add: list_all_iff)
  moreover have "list_all (store_landed (after_fill p w)) (rev (stores (length (heap w)) 0))"
    using store_landed_stores [of p w 0] by (simp add: list_all_iff)
  moreover have "map (\<lambda>k. unat (bytes (heap (after_fill p w) ! length (heap w)) k)) [0..<1048576]
      = map (\<lambda>k. k mod 256) [0..<1048576]"
    by (simp add: buffer_after_fill bytes_fill_block unat_pattern)
  ultimately show ?thesis
    using assms by (simp add: loop_main_good new_events_after_fill)
qed

theorem fill_write_order_witness:
  "malloc_ok good_platform
   \<and> (\<exists>w'. loop_main good_platform empty_world = Exit 0 w'
          \<and> map (\<lambda>e. (store_offset e, store_value e)) (filter is_Store (new_events empty_world w'))
              = map (\<lambda>k. (k, k mod 256)) [0..<1048576]
          \<and> list_all (stored_within 0 1048576) (new_events empty_world w')
          \<and> list_all (store_landed w') (new_events empty_world w')
          \<and> map (\<lambda>k. unat (bytes (heap w' ! 0) k)) [0..<1048576]
              = map (\<lambda>k. k mod 256) [0..<1048576])"
proof -
  have "length (heap empty_world) = 0"
    by (simp add: empty_world_def)
  with fill_write_order [OF good_platform_ok, of empty_world] good_platform_ok show ?thesis
    by simp
qed

text \<open>
  C5 (TimeReader monotonicity). On a platform whose counter keeps the contract of a
  monotonic counter, two successive reads in one run, the second taken in the state the
  first one left, return values of which the second is not less than the first. (Each
  run of the program takes one read only.)
\<close>

theorem successive_reads_monotone:
  assumes "monotonic_counter p"
  shows "fst (mach_absolute_time p w) \<le> fst (mach_absolute_time p (snd (mach_absolute_time p w)))"
  using assms by (simp add: mach_absolute_time_def monotonic_counter_def)

theorem successive_reads_monotone_witness:
  "monotonic_counter ticking_platform
   \<and> fst (mach_absolute_time ticking_platform empty_world) = 100
   \<and> fst (mach_absolute_time ticking_platform (snd (mach_absolute_time ticking_platform empty_world))) = 250
   \<and> fst (mach_absolute_time ticking_platform empty_world)
       \<le> fst (mach_absolute_time ticking_platform (snd (mach_absolute_time ticking_platform empty_world)))"
proof -
  have m: "monotonic_counter ticking_platform"
    by (simp add: monotonic_counter_def ticking_platform_def)
  have "fst (mach_absolute_time ticking_platform empty_world) = 100"
    and "fst (mach_absolute_time ticking_platform (snd (mach_absolute_time ticking_platform empty_world))) = 250"
    by (simp_all add: mach_absolute_time_def ticking_platform_def empty_world_def)
  with successive_reads_monotone [OF m, of empty_world] m show ?thesis
    by simp
qed

text \<open>
  C6 (BufferFill allocation failure). The result of \<^verbatim>\<open>malloc\<close> is not tested: the run
  reaches the end of \<^verbatim>\<open>main\<close> exactly when the allocation succeeds, and when it fails
  the pointer is null and the first iteration stores through it, which is undefined
  behaviour; nothing was done in between but the allocation request.
\<close>

theorem allocation_failure_unchecked:
  "(\<exists>c w'. loop_main p w = Exit c w') = malloc_ok p
   \<and> (\<not> malloc_ok p \<longrightarrow>
        fst (malloc p (scast BUFSIZE) w) = NULL
        \<and> loop_main p w = Crash NullDeref (w\<lparr>trace := Malloc 1048576 # trace w\<rparr>))"
proof (cases "malloc_ok p")
  case True
  then show ?thesis
    by (simp add: loop_main_good)
next
  case False
  then show ?thesis
    by (simp add: loop_main_starved malloc_starved)
qed

theorem allocation_failure_unchecked_witness:
  "\<not> malloc_ok starved_platform
   \<and> fst (malloc starved_platform (scast BUFSIZE) empty_world) = NULL
   \<and> loop_main starved_platform empty_world
       = Crash NullDeref (empty_world\<lparr>trace := [Malloc 1048576]\<rparr>)"
proof -
  have "trace empty_world = []"
    by (simp add: empty_world_def)
  with allocation_failure_unchecked [of starved_platform empty_world] starved_platform_fails
  show ?thesis
    by simp
qed

text \<open>
  C7 (run independence). Two runs, on any two platforms and from any two states:
  BufferFill, when both allocations succeed, leaves the same bytes in its buffer in both
  runs, whatever the fresh memory held; TimeReader writes the same text in both runs when
  the two reads return the same value, whatever else differs. Neither program changes the
  files or the environment variables, so a run leaves nothing for the next one.
\<close>

theorem run_independence:
  "(malloc_ok p1 \<and> malloc_ok p2 \<longrightarrow>
      (\<exists>w1' w2'. loop_main p1 w1 = Exit 0 w1' \<and> loop_main p2 w2 = Exit 0 w2'
         \<and> map (bytes (heap w1' ! length (heap w1))) [0..<len (heap w1' ! length (heap w1))]
             = map (bytes (heap w2' ! length (heap w2))) [0..<len (heap w2' ! length (heap w2))]
         \<and> files w1' = files w1 \<and> environ w1' = environ w1
         \<and> files w2' = files w2 \<and> environ w2' = environ w2))
   \<and> (\<exists>u1 u2. time_main p1 w1 = Exit 0 u1 \<and> time_main p2 w2 = Exit 0 u2
         \<and> files u1 = files w1 \<and> environ u1 = environ w1
         \<and> files u2 = files w2 \<and> environ u2 = environ w2
         \<and> (fst (mach_absolute_time p1 w1) = fst (mach_absolute_time p2 w2) \<longrightarrow>
              (\<exists>out. stdout u1 = stdout w1 @ out \<and> stdout u2 = stdout w2 @ out)))"
proof -
  have "map (bytes (fill_block 0 (fresh p1))) [0..<len (fill_block 0 (fresh p1))]
      = map (bytes (fill_block 0 (fresh p2))) [0..<len (fill_block 0 (fresh p2))]"
    by (simp add: len_fill_block bytes_fill_block fresh_def)
  then show ?thesis
    by (simp add: loop_main_good buffer_after_fill time_main_run mach_absolute_time_def)
       (simp add: after_fill_def)
qed

theorem run_independence_witness:
  "malloc_ok good_platform \<and> malloc_ok other_platform
   \<and> (\<exists>w1' w2'. loop_main good_platform empty_world = Exit 0 w1'
          \<and> loop_main other_platform busy_world = Exit 0 w2'
          \<and> map (bytes (heap w1' ! 0)) [0..<len (heap w1' ! 0)]
              = map (bytes (heap w2' ! 0)) [0..<len (heap w2' ! 0)]
          \<and> files w1' = [] \<and> environ w1' = []
          \<and> files w2' = [(''notes'', ''kept'')] \<and> environ w2' = [(''HOME'', ''/root'')])
   \<and> fst (mach_absolute_time good_platform empty_world)
       = fst (mach_absolute_time other_platform busy_world)
   \<and> (\<exists>u1 u2 out. time_main good_platform empty_world = Exit 0 u1
          \<and> time_main other_platform busy_world = Exit 0 u2
          \<and> stdout u1 = out \<and> stdout u2 = ''x'' @ out)"
proof -
  have same: "fst (mach_absolute_time good_platform empty_world)
                = fst (mach_absolute_time other_platform busy_world)"
    by (simp add: mach_absolute_time_def good_platform_def other_platform_def
        empty_world_def busy_world_def)
  have e: "heap empty_world = []" "files empty_world = []" "environ empty_world = []"
    "stdout empty_world = []"
    by (simp_all add: empty_world_def)
  have b: "heap busy_world = []" "files busy_world = [(''notes'', ''kept'')]"
    "environ busy_world = [(''HOME'', ''/root'')]" "stdout busy_world = ''x''"
    by (simp_all add: busy_world_def)
  from run_independence [of good_platform other_platform empty_world busy_world]
    good_platform_ok other_platform_ok same
  have "(\<exists>w1' w2'. loop_main good_platform empty_world = Exit 0 w1'
          \<and> loop_main other_platform busy_world = Exit 0 w2'
          \<and> map (bytes (heap w1' ! 0)) [0..<len (heap w1' ! 0)]
              = map (bytes (heap w2' ! 0)) [0..<len (heap w2' ! 0)]
          \<and> files w1' = [] \<and> environ w1' = []
          \<and> files w2' = [(''notes'', ''kept'')] \<and> environ w2' = [(''HOME'', ''/root'')])"
    and "(\<exists>u1 u2 out. time_main good_platform empty_world = Exit 0 u1
          \<and> time_main other_platform busy_world = Exit 0 u2
          \<and> stdout u1 = out \<and> stdout u2 = ''x'' @ out)"
    by (auto simp add: e b)
  with good_platform_ok other_platform_ok same show ?thesis
    by simp
qed

text \<open>
  C8 (run to completion). Both programs return on every run on which no undefined
  operation is reached: TimeReader always returns 0; BufferFill ends on every run, and
  when the allocation succeeds it returns 0 after exactly 1048576 iterations of the loop,
  each of which performs one store. (That the loop ends at all is the termination proof
  of \<open>fill\<close>: the distance of the 64-bit index from 1048576 decreases.)
\<close>

theorem run_to_completion:
  "(\<exists>w'. time_main p w = Exit 0 w')
   \<and> (\<exists>w'. loop_main p w = Exit 0 w' \<or> loop_main p w = Crash NullDeref w')
   \<and> (malloc_ok p \<longrightarrow>
        (\<exists>w'. loop_main p w = Exit 0 w'
           \<and> length (filter is_Store (new_events w w')) = 1048576))"
proof (cases "malloc_ok p")
  case True
  then show ?thesis
    by (simp add: time_main_run loop_main_good new_events_after_fill filter_Store_stores
        length_stores flip: rev_filter)
next
  case False
  then show ?thesis
    by (simp add: time_main_run loop_main_starved)
qed

theorem run_to_completion_witness:
  "malloc_ok good_platform
   \<and> (\<exists>w'. time_main good_platform empty_world = Exit 0 w')
   \<and> (\<exists>w'. loop_main good_platform empty_world = Exit 0 w'
          \<and> length (filter is_Store (new_events empty_world w')) = 1048576)"
  using run_to_completion [of good_platform empty_world] good_platform_ok
  by simp

text \<open>
  C9 (BufferFill frame). On normal completion BufferFill returns 0 and has written nothing
  to standard output, has read no timer, and has left the arguments, the environment
  variables, the files and the heap blocks that existed unchanged; only the heap (the new
  block) and the trace, which is the old one with the events of the run added, differ. It consumes neither arguments nor
  environment nor files: with any others in their place the run is the same.
\<close>

theorem buffer_fill_frame:
  assumes "malloc_ok p"
  shows "\<exists>w'. loop_main p w = Exit 0 w'
           \<and> stdout w' = stdout w \<and> files w' = files w \<and> environ w' = environ w
           \<and> argv w' = argv w \<and> clock_reads w' = clock_reads w
           \<and> take (length (heap w)) (heap w') = heap w
           \<and> trace w' = rev (new_events w w') @ trace w
           \<and> (\<forall>a e f. loop_main p (w\<lparr>argv := a, environ := e, files := f\<rparr>)
                        = Exit 0 (w'\<lparr>argv := a, environ := e, files := f\<rparr>))"
  using assms
  by (simp add: loop_main_good after_fill_frame new_events_after_fill trace_after_fill)
     (simp add: after_fill_def)

theorem buffer_fill_frame_witness:
  "malloc_ok good_platform
   \<and> (\<exists>w'. loop_main good_platform busy_world = Exit 0 w'
          \<and> stdout w' = ''x'' \<and> files w' = [(''notes'', ''kept'')]
          \<and> environ w' = [(''HOME'', ''/root'')] \<and> argv w' = [''prog'', ''arg'']
          \<and> clock_reads w' = 0)"
proof -
  from buffer_fill_frame [OF good_platform_ok, of busy_world] good_platform_ok show ?thesis
    by (auto simp add: busy_world_def)
qed

text \<open>
  C10 (in-bounds stores). No run of BufferFill ends in a store outside a block; and when
  the allocation succeeds, the pointer is the new block, the block has 1048576 bytes, and
  every store of the run goes to that block at an offset below its length.
\<close>

theorem stores_in_bounds:
  "(\<forall>w'. loop_main p w \<noteq> Crash OutOfBounds w')
   \<and> (malloc_ok p \<longrightarrow>
        (\<exists>w'. loop_main p w = Exit 0 w'
           \<and> fst (malloc p (scast BUFSIZE) w) = Ptr (length (heap w))
           \<and> list_all (stored_within (length (heap w)) (len (heap w' ! length (heap w))))
                (new_events w w')
           \<and> len (heap w' ! length (heap w)) = 1048576))"
proof (cases "malloc_ok p")
  case True
  have "list_all (stored_within (length (heap w)) 1048576) (rev (stores (length (heap w)) 0))"
    using stored_within_stores [of "length (heap w)" 0] by (simp add: list_all_iff)
  with True show ?thesis
    by (simp add: loop_main_good malloc_good new_events_after_fill buffer_after_fill
        len_fill_block fresh_def)
next
  case False
  then show ?thesis
    by (simp add: loop_main_starved)
qed

theorem stores_in_bounds_witness:
  "malloc_ok good_platform
   \<and> (\<exists>w'. loop_main good_platform empty_world = Exit 0 w'
          \<and> list_all (stored_within 0 (len (heap w' ! 0))) (new_events empty_world w')
          \<and> len (heap w' ! 0) = 1048576)"
proof -
  have "length (heap empty_world) = 0"
    by (simp add: empty_world_def)
  with stores_in_bounds [of good_platform empty_world] good_platform_ok show ?thesis
    by auto
qed

end
